theory Spec2Isabelle
  imports Main "HOL-Library.Word"
begin

unbundle bit_operations_syntax

section \<open>Data model of drivers/ps2/ps2\_gpio.c\<close>

text \<open>
  The driver keeps one \<open>struct ps2_gpio_data\<close>. Every function of the source that touches
  it becomes a function from the state to the new state (paired with the returned
  \<open>int\<close> where the source returns an error code). Calls that leave the driver (GPIO pin
  writes and configuration, the sleep, the registered callback) are appended to logs kept
  in the state, so that which line a level is written to can be read off afterwards.
\<close>

datatype ps2_gpio_mode = PS2_GPIO_MODE_READ | PS2_GPIO_MODE_WRITE

datatype ps2_gpio_write_status =
    PS2_GPIO_WRITE_STATUS_INACTIVE
  | PS2_GPIO_WRITE_STATUS_ACTIVE
  | PS2_GPIO_WRITE_STATUS_SUCCESS
  | PS2_GPIO_WRITE_STATUS_FAILURE

text \<open>The enumerators' values, as C numbers them.\<close>

fun write_status_val :: "ps2_gpio_write_status \<Rightarrow> int" where
  "write_status_val PS2_GPIO_WRITE_STATUS_INACTIVE = 0"
| "write_status_val PS2_GPIO_WRITE_STATUS_ACTIVE = 1"
| "write_status_val PS2_GPIO_WRITE_STATUS_SUCCESS = 2"
| "write_status_val PS2_GPIO_WRITE_STATUS_FAILURE = 3"

abbreviation (input) PS2_GPIO_POS_START :: int where "PS2_GPIO_POS_START \<equiv> 0"
abbreviation (input) PS2_GPIO_POS_PARITY :: int where "PS2_GPIO_POS_PARITY \<equiv> 9"
abbreviation (input) PS2_GPIO_POS_STOP :: int where "PS2_GPIO_POS_STOP \<equiv> 10"
abbreviation (input) PS2_GPIO_POS_ACK :: int where "PS2_GPIO_POS_ACK \<equiv> 11"

abbreviation (input) EAGAIN :: int where "EAGAIN \<equiv> 11"
abbreviation (input) EBUSY :: int where "EBUSY \<equiv> 16"
abbreviation (input) EINVAL :: int where "EINVAL \<equiv> 22"
abbreviation (input) ETIMEDOUT :: int where "ETIMEDOUT \<equiv> 116"

text \<open>
  The two lines of the bus. \<open>scl_gpio\<close>/\<open>scl_pin\<close> of the source name the line \<open>SCL\<close>,
  \<open>sda_gpio\<close>/\<open>sda_pin\<close> the line \<open>SDA\<close>.
\<close>

datatype gpio_line = SCL | SDA

datatype gpio_flags = GPIO_INPUT | GPIO_OUTPUT_LOW

datatype line_op =
    Gpio_pin_set gpio_line int
  | Gpio_pin_configure gpio_line gpio_flags
  | K_sleep_usec nat

text \<open>
  What the GPIO controller answers is input from outside the driver: \<open>gpio_cfg\<close> is the
  return value of \<open>gpio_pin_configure\<close> for a line and a direction (0 on success),
  \<open>gpio_in\<close> the return value of \<open>gpio_pin_get\<close> for a line at the time of one clock edge.
\<close>

type_synonym gpio_cfg = "gpio_line \<Rightarrow> gpio_flags \<Rightarrow> int"
type_synonym gpio_in = "gpio_line \<Rightarrow> int"

text \<open>
  The source queues a pointer, not a byte: \<open>k_fifo_put(&data->data_queue, &byte)\<close> passes the
  address of the parameter \<open>byte\<close> of \<open>ps2_gpio_process_received_byte\<close>, and \<open>ps2_gpio_read\<close>
  dereferences the pointer it gets back. That parameter is an automatic object: each call
  has its own, and its lifetime ends when the call returns. So the model keeps a store:
  \<open>obj\<close> names an automatic \<open>uint8_t\<close> object, \<open>auto_bytes\<close> maps the objects that are alive
  to their values, \<open>next_obj\<close> numbers them, and the queue is a list of pointers to such
  objects. Reading through a pointer to an object that is no longer alive gives the
  value \<open>Indeterminate\<close>.
\<close>

type_synonym obj = nat

datatype read_value = Value "8 word" | Indeterminate

text \<open>
  \<open>callback_isr\<close> is \<open>None\<close> for the NULL pointer and \<open>Some h\<close> for a registered handler
  \<open>h\<close>; \<open>callback_log\<close> lists its invocations. \<open>write_lock\<close> is the count of the
  semaphore and \<open>write_lock_gives\<close> counts the calls of \<open>k_sem_give\<close> on it.
\<close>

record ps2_gpio_data =
  callback_isr :: "nat option"
  callback_enabled :: bool
  data_queue :: "obj list"
  auto_bytes :: "obj \<rightharpoonup> 8 word"
  next_obj :: obj
  mode :: ps2_gpio_mode
  cur_read_byte :: "8 word"
  cur_read_pos :: int
  write_buffer :: "16 word"
  cur_write_pos :: int
  cur_write_status :: ps2_gpio_write_status
  write_lock :: nat
  write_lock_gives :: nat
  callback_log :: "(nat \<times> 8 word) list"
  line_log :: "line_op list"

text \<open>
  The static initialiser of \<open>ps2_gpio_data\<close>, with the queue and the semaphore as
  \<open>ps2_gpio_init\<close> creates them: \<open>k_fifo_init\<close> gives an empty queue and
  \<open>k_sem_init(&data->write_lock, 0, 1)\<close> a semaphore of count 0 and limit 1.
\<close>

definition ps2_gpio_data_init :: ps2_gpio_data where
  "ps2_gpio_data_init =
     \<lparr> callback_isr = None, callback_enabled = False, data_queue = [],
       auto_bytes = Map.empty, next_obj = 0,
       mode = PS2_GPIO_MODE_READ, cur_read_byte = 0, cur_read_pos = 0,
       write_buffer = 0, cur_write_pos = 0,
       cur_write_status = PS2_GPIO_WRITE_STATUS_INACTIVE,
       write_lock = 0, write_lock_gives = 0, callback_log = [], line_log = [] \<rparr>"

section \<open>Kernel objects\<close>

text \<open>
  Modelled from the spec: the semaphore of the Zephyr kernel (\<open>k_sem_take\<close>,
  \<open>k_sem_give\<close>) is not part of the driver file. The spec gives it binary-semaphore
  semantics with capacity 1: a non-blocking acquire succeeds (returning 0) when the count
  is positive and reports busy (\<open>-EBUSY\<close>) otherwise; a release raises the count up to the
  limit 1.
\<close>

definition k_sem_take_no_wait :: "ps2_gpio_data \<Rightarrow> int \<times> ps2_gpio_data" where
  "k_sem_take_no_wait s =
     (if 0 < write_lock s then (0, s\<lparr>write_lock := write_lock s - 1\<rparr>) else (- EBUSY, s))"

definition k_sem_give :: "ps2_gpio_data \<Rightarrow> ps2_gpio_data" where
  "k_sem_give s =
     s\<lparr>write_lock := (if write_lock s < 1 then write_lock s + 1 else write_lock s),
       write_lock_gives := write_lock_gives s + 1\<rparr>"

text \<open>
  Modelled from the spec: the queue of the Zephyr kernel (\<open>k_fifo_put\<close>, \<open>k_fifo_get\<close>)
  is not part of the driver file. The spec describes it as an ordered queue: a push
  appends, a non-waiting get removes the oldest item or reports that there is none (NULL).
  The items are what the driver passes and gets back, which in the source are pointers.
\<close>

definition k_fifo_put :: "obj \<Rightarrow> ps2_gpio_data \<Rightarrow> ps2_gpio_data" where
  "k_fifo_put ptr s = s\<lparr>data_queue := data_queue s @ [ptr]\<rparr>"

definition k_fifo_get_no_wait :: "ps2_gpio_data \<Rightarrow> obj option \<times> ps2_gpio_data" where
  "k_fifo_get_no_wait s =
     (case data_queue s of
        [] \<Rightarrow> (None, s)
      | x # xs \<Rightarrow> (Some x, s\<lparr>data_queue := xs\<rparr>))"

section \<open>Macros and compiler builtins\<close>

text \<open>
  \<open>PS2_GPIO_GET_BIT(data, bit_pos)\<close> is \<open>(data >> bit_pos) & 0x1\<close>, an \<open>int\<close>.
  \<open>PS2_GPIO_SET_BIT(data, bit_val, bit_pos)\<close> is \<open>data |= (bit_val) << bit_pos\<close>: the
  shifted \<open>int\<close> is truncated to the width of \<open>data\<close> by the assignment, which is what
  shifting inside the narrower word computes. (A shift by a negative amount or by 32 or
  more is undefined in C; the driver only shifts by positions 0 to 10.)
\<close>

definition PS2_GPIO_GET_BIT :: "'a::len word \<Rightarrow> int \<Rightarrow> int" where
  "PS2_GPIO_GET_BIT data bit_pos = (if bit data (nat bit_pos) then 1 else 0)"

definition PS2_GPIO_SET_BIT :: "'a::len word \<Rightarrow> int \<Rightarrow> int \<Rightarrow> 'a word" where
  "PS2_GPIO_SET_BIT data bit_val bit_pos = data OR push_bit (nat bit_pos) (word_of_int bit_val)"

text \<open>
  GCC's \<open>__builtin_parity(x)\<close>: the number of 1-bits of \<open>x\<close> modulo 2.
\<close>

definition builtin_parity :: "'a::len word \<Rightarrow> int" where
  "builtin_parity x = (if odd (length (filter (bit x) [0..<LENGTH('a)])) then 1 else 0)"

section \<open>Helper functions\<close>

definition gpio_pin_get :: "gpio_in \<Rightarrow> gpio_line \<Rightarrow> int" where
  "gpio_pin_get pins l = pins l"

definition gpio_pin_set :: "gpio_line \<Rightarrow> int \<Rightarrow> ps2_gpio_data \<Rightarrow> ps2_gpio_data" where
  "gpio_pin_set l v s = s\<lparr>line_log := line_log s @ [Gpio_pin_set l v]\<rparr>"

definition gpio_pin_configure ::
  "gpio_cfg \<Rightarrow> gpio_line \<Rightarrow> gpio_flags \<Rightarrow> ps2_gpio_data \<Rightarrow> int \<times> ps2_gpio_data" where
  "gpio_pin_configure cfg l f s = (cfg l f, s\<lparr>line_log := line_log s @ [Gpio_pin_configure l f]\<rparr>)"

definition k_sleep_usec :: "nat \<Rightarrow> ps2_gpio_data \<Rightarrow> ps2_gpio_data" where
  "k_sleep_usec n s = s\<lparr>line_log := line_log s @ [K_sleep_usec n]\<rparr>"

definition ps2_gpio_get_scl :: "gpio_in \<Rightarrow> int" where
  "ps2_gpio_get_scl pins = gpio_pin_get pins SCL"

definition ps2_gpio_get_sda :: "gpio_in \<Rightarrow> int" where
  "ps2_gpio_get_sda pins = gpio_pin_get pins SDA"

text \<open>
  The two setters as the source has them: \<open>ps2_gpio_set_scl\<close> calls
  \<open>gpio_pin_set(data->sda_gpio, config->sda_pin, state)\<close> and \<open>ps2_gpio_set_sda\<close> calls
  \<open>gpio_pin_set(data->scl_gpio, config->scl_pin, state)\<close>.
\<close>

definition ps2_gpio_set_scl :: "int \<Rightarrow> ps2_gpio_data \<Rightarrow> ps2_gpio_data" where
  "ps2_gpio_set_scl state s = gpio_pin_set SDA state s"

definition ps2_gpio_set_sda :: "int \<Rightarrow> ps2_gpio_data \<Rightarrow> ps2_gpio_data" where
  "ps2_gpio_set_sda state s = gpio_pin_set SCL state s"

text \<open>The loop \<open>while(k_fifo_get(&data->data_queue, K_NO_WAIT) != NULL) {}\<close>.\<close>

function ps2_gpio_empty_data_queue :: "ps2_gpio_data \<Rightarrow> ps2_gpio_data" where
  "ps2_gpio_empty_data_queue s =
     (case k_fifo_get_no_wait s of
        (None, s') \<Rightarrow> s'
      | (Some x, s') \<Rightarrow> ps2_gpio_empty_data_queue s')"
  by pat_completeness auto
termination
  by (relation "measure (\<lambda>s. length (data_queue s))")
     (auto simp: k_fifo_get_no_wait_def split: list.splits)

declare ps2_gpio_empty_data_queue.simps [simp del]

section \<open>Parity\<close>

definition ps2_gpio_get_byte_parity :: "8 word \<Rightarrow> bool" where
  "ps2_gpio_get_byte_parity byte = (let byte_parity = builtin_parity byte in byte_parity = 0)"

definition ps2_gpio_check_parity :: "8 word \<Rightarrow> int \<Rightarrow> bool" where
  "ps2_gpio_check_parity byte parity_bit_val =
     (let byte_parity = builtin_parity byte in
      if byte_parity = parity_bit_val then False else True)"

text \<open>A C \<open>bool\<close> used as an \<open>int\<close>.\<close>

definition int_of_bool :: "bool \<Rightarrow> int" where
  "int_of_bool b = (if b then 1 else 0)"

section \<open>Writing\<close>

definition ps2_gpio_write_byte_async ::
  "gpio_cfg \<Rightarrow> 8 word \<Rightarrow> ps2_gpio_data \<Rightarrow> int \<times> ps2_gpio_data" where
  "ps2_gpio_write_byte_async cfg byte s =
     (case k_sem_take_no_wait s of (err, s1) \<Rightarrow>
      if err \<noteq> 0 \<and> err \<noteq> - EBUSY then (err, s1)
      else
        let byte_parity = ps2_gpio_get_byte_parity byte;
            s2 = s1\<lparr>write_buffer := 0\<rparr>;
            s2 = s2\<lparr>write_buffer := PS2_GPIO_SET_BIT (write_buffer s2) 0 0\<rparr>;
            s2 = s2\<lparr>write_buffer := PS2_GPIO_SET_BIT (write_buffer s2) (PS2_GPIO_GET_BIT byte 0) 1\<rparr>;
            s2 = s2\<lparr>write_buffer := PS2_GPIO_SET_BIT (write_buffer s2) (PS2_GPIO_GET_BIT byte 1) 2\<rparr>;
            s2 = s2\<lparr>write_buffer := PS2_GPIO_SET_BIT (write_buffer s2) (PS2_GPIO_GET_BIT byte 2) 3\<rparr>;
            s2 = s2\<lparr>write_buffer := PS2_GPIO_SET_BIT (write_buffer s2) (PS2_GPIO_GET_BIT byte 3) 4\<rparr>;
            s2 = s2\<lparr>write_buffer := PS2_GPIO_SET_BIT (write_buffer s2) (PS2_GPIO_GET_BIT byte 4) 5\<rparr>;
            s2 = s2\<lparr>write_buffer := PS2_GPIO_SET_BIT (write_buffer s2) (PS2_GPIO_GET_BIT byte 5) 6\<rparr>;
            s2 = s2\<lparr>write_buffer := PS2_GPIO_SET_BIT (write_buffer s2) (PS2_GPIO_GET_BIT byte 6) 7\<rparr>;
            s2 = s2\<lparr>write_buffer := PS2_GPIO_SET_BIT (write_buffer s2) (PS2_GPIO_GET_BIT byte 7) 8\<rparr>;
            s2 = s2\<lparr>write_buffer := PS2_GPIO_SET_BIT (write_buffer s2) (int_of_bool byte_parity) 9\<rparr>;
            s2 = s2\<lparr>write_buffer := PS2_GPIO_SET_BIT (write_buffer s2) 1 10\<rparr>;
            s3 = s2\<lparr>mode := PS2_GPIO_MODE_WRITE, cur_write_pos := PS2_GPIO_POS_START\<rparr>
        in
        case gpio_pin_configure cfg SCL GPIO_OUTPUT_LOW s3 of (err, s4) \<Rightarrow>
        if err \<noteq> 0 then (err, s4)
        else
          let s5 = k_sleep_usec 100 s4;
              s6 = s5\<lparr>cur_write_status := PS2_GPIO_WRITE_STATUS_ACTIVE,
                      cur_read_byte := 0, cur_read_pos := PS2_GPIO_POS_START\<rparr>
          in
          case gpio_pin_configure cfg SDA GPIO_OUTPUT_LOW s6 of (err, s7) \<Rightarrow>
          if err \<noteq> 0 then (err, s7)
          else
            let s8 = s7\<lparr>cur_write_pos := cur_write_pos s7 + 1\<rparr>;
                s9 = ps2_gpio_set_scl 1 s8
            in
            case gpio_pin_configure cfg SCL GPIO_INPUT s9 of (err, s10) \<Rightarrow>
            if err \<noteq> 0 then (err, s10) else (0, s10))"

definition ps2_gpio_send_cmd_resend :: "gpio_cfg \<Rightarrow> ps2_gpio_data \<Rightarrow> ps2_gpio_data" where
  "ps2_gpio_send_cmd_resend cfg s = (let cmd = 0xfe in snd (ps2_gpio_write_byte_async cfg cmd s))"

definition ps2_gpio_scl_interrupt_handler_write_send_bit :: "ps2_gpio_data \<Rightarrow> ps2_gpio_data" where
  "ps2_gpio_scl_interrupt_handler_write_send_bit s =
     (let data_bit = PS2_GPIO_GET_BIT (write_buffer s) (cur_write_pos s)
      in ps2_gpio_set_sda data_bit s)"

definition ps2_gpio_scl_interrupt_handler_write_check_ack ::
  "gpio_in \<Rightarrow> ps2_gpio_data \<Rightarrow> ps2_gpio_data" where
  "ps2_gpio_scl_interrupt_handler_write_check_ack pins s =
     (let ack_val = ps2_gpio_get_sda pins;
          s1 = (if ack_val = 0 then s\<lparr>cur_write_status := PS2_GPIO_WRITE_STATUS_SUCCESS\<rparr>
                else s\<lparr>cur_write_status := PS2_GPIO_WRITE_STATUS_FAILURE\<rparr>);
          s2 = s1\<lparr>mode := PS2_GPIO_MODE_READ, write_buffer := 0,
                  cur_write_pos := PS2_GPIO_POS_START\<rparr>
      in k_sem_give s2)"

definition ps2_gpio_scl_interrupt_handler_write ::
  "gpio_cfg \<Rightarrow> gpio_in \<Rightarrow> ps2_gpio_data \<Rightarrow> ps2_gpio_data" where
  "ps2_gpio_scl_interrupt_handler_write cfg pins s =
     (if cur_write_pos s = PS2_GPIO_POS_START then s
      else
        let s1 =
          (if cur_write_pos s = PS2_GPIO_POS_STOP then
             (let s' = ps2_gpio_scl_interrupt_handler_write_send_bit s
              in snd (gpio_pin_configure cfg SDA GPIO_INPUT s'))
           else if cur_write_pos s = PS2_GPIO_POS_ACK then
             ps2_gpio_scl_interrupt_handler_write_check_ack pins s
           else ps2_gpio_scl_interrupt_handler_write_send_bit s)
        in s1\<lparr>cur_write_pos := cur_write_pos s1 + 1\<rparr>)"

section \<open>Reading\<close>

definition ps2_gpio_abort_read :: "gpio_cfg \<Rightarrow> ps2_gpio_data \<Rightarrow> ps2_gpio_data" where
  "ps2_gpio_abort_read cfg s =
     (let s1 = ps2_gpio_send_cmd_resend cfg s
      in s1\<lparr>cur_read_pos := PS2_GPIO_POS_START, cur_read_byte := 0\<rparr>)"

text \<open>
  \<open>ps2_gpio_process_received_byte(uint8_t byte)\<close>: entering the function creates the
  parameter object \<open>p\<close> holding \<open>byte\<close>; the callback is called with the value, the queue
  is given the address \<open>&byte\<close>, that is \<open>p\<close>; returning ends the lifetime of \<open>p\<close>.
\<close>

definition ps2_gpio_process_received_byte :: "8 word \<Rightarrow> ps2_gpio_data \<Rightarrow> ps2_gpio_data" where
  "ps2_gpio_process_received_byte byte s =
     (let p = next_obj s;
          s1 = s\<lparr>next_obj := p + 1, auto_bytes := (auto_bytes s)(p \<mapsto> byte)\<rparr>;
          s2 = (case callback_isr s1 of
                  Some h \<Rightarrow>
                    if callback_enabled s1
                    then s1\<lparr>callback_log := callback_log s1 @ [(h, byte)]\<rparr>
                    else k_fifo_put p s1
                | None \<Rightarrow> k_fifo_put p s1)
      in s2\<lparr>auto_bytes := (auto_bytes s2)(p := None)\<rparr>)"

definition ps2_gpio_scl_interrupt_handler_read ::
  "gpio_cfg \<Rightarrow> gpio_in \<Rightarrow> ps2_gpio_data \<Rightarrow> ps2_gpio_data" where
  "ps2_gpio_scl_interrupt_handler_read cfg pins s =
     (let scl_val = ps2_gpio_get_scl pins;
          sda_val = ps2_gpio_get_sda pins
      in
      if cur_read_pos s = PS2_GPIO_POS_START then
        (if sda_val \<noteq> 0 then ps2_gpio_abort_read cfg s
         else s\<lparr>cur_read_pos := cur_read_pos s + 1\<rparr>)
      else if cur_read_pos s = PS2_GPIO_POS_PARITY then
        (if ps2_gpio_check_parity (cur_read_byte s) sda_val \<noteq> True then ps2_gpio_abort_read cfg s
         else s\<lparr>cur_read_pos := cur_read_pos s + 1\<rparr>)
      else if cur_read_pos s = PS2_GPIO_POS_STOP then
        (if sda_val \<noteq> 1 then ps2_gpio_abort_read cfg s
         else
           let s1 = ps2_gpio_process_received_byte (cur_read_byte s) s
           in s1\<lparr>cur_read_pos := PS2_GPIO_POS_START, cur_read_byte := 0\<rparr>)
      else
        (let bit_pos = cur_read_pos s - 1;
             s1 = s\<lparr>cur_read_byte := PS2_GPIO_SET_BIT (cur_read_byte s) sda_val bit_pos\<rparr>
         in s1\<lparr>cur_read_pos := cur_read_pos s1 + 1\<rparr>))"

section \<open>Interrupt handler\<close>

definition ps2_gpio_scl_interrupt_handler ::
  "gpio_cfg \<Rightarrow> gpio_in \<Rightarrow> ps2_gpio_data \<Rightarrow> ps2_gpio_data" where
  "ps2_gpio_scl_interrupt_handler cfg pins s =
     (if mode s = PS2_GPIO_MODE_READ then ps2_gpio_scl_interrupt_handler_read cfg pins s
      else ps2_gpio_scl_interrupt_handler_write cfg pins s)"

section \<open>Blocking write\<close>

text \<open>
  Modelled from the spec: the waiting acquire \<open>k_sem_take(&data->write_lock, K_MSEC(500))\<close>
  belongs to the kernel, not to the driver file. The spec has the caller suspended on the
  gate with a bounded timeout while the interrupt context processes one clock edge at a
  time. Here \<open>edges\<close> are the clock edges that arrive before the timeout, each with the
  pin levels read at that edge; the waiter wakes (result 0) as soon as the count is
  positive and takes it, and the wait ends with \<open>-EAGAIN\<close> when the edges are used up
  and the count is still 0.
\<close>

fun k_sem_take_timeout ::
  "gpio_cfg \<Rightarrow> gpio_in list \<Rightarrow> ps2_gpio_data \<Rightarrow> int \<times> ps2_gpio_data" where
  "k_sem_take_timeout cfg [] s =
     (if 0 < write_lock s then (0, s\<lparr>write_lock := write_lock s - 1\<rparr>) else (- EAGAIN, s))"
| "k_sem_take_timeout cfg (e # edges) s =
     (if 0 < write_lock s then (0, s\<lparr>write_lock := write_lock s - 1\<rparr>)
      else k_sem_take_timeout cfg edges (ps2_gpio_scl_interrupt_handler cfg e s))"

definition ps2_gpio_write_byte_blocking ::
  "gpio_cfg \<Rightarrow> gpio_in list \<Rightarrow> 8 word \<Rightarrow> ps2_gpio_data \<Rightarrow> int \<times> ps2_gpio_data" where
  "ps2_gpio_write_byte_blocking cfg edges byte s =
     (case ps2_gpio_write_byte_async cfg byte s of (err, s1) \<Rightarrow>
      if err \<noteq> 0 then (err, s1)
      else
        case k_sem_take_timeout cfg edges s1 of (err, s2) \<Rightarrow>
        if err \<noteq> 0 then (err, s2)
        else
          let err = (if cur_write_status s2 = PS2_GPIO_WRITE_STATUS_SUCCESS then 0
                     else - write_status_val (cur_write_status s2))
          in (err, s2\<lparr>cur_write_status := PS2_GPIO_WRITE_STATUS_INACTIVE\<rparr>))"

section \<open>Driver interface\<close>

text \<open>
  Modelled from the spec: the waiting get \<open>k_fifo_get(&data->data_queue, PS2_GPIO_TIMEOUT_READ)\<close>
  belongs to the kernel. As for the semaphore, \<open>edges\<close> are the clock edges that arrive
  before the timeout; the caller gets the oldest item as soon as the queue holds one, and
  NULL when the edges are used up and the queue is still empty.
\<close>

fun k_fifo_get_timeout ::
  "gpio_cfg \<Rightarrow> gpio_in list \<Rightarrow> ps2_gpio_data \<Rightarrow> obj option \<times> ps2_gpio_data" where
  "k_fifo_get_timeout cfg [] s = k_fifo_get_no_wait s"
| "k_fifo_get_timeout cfg (e # edges) s =
     (if data_queue s \<noteq> [] then k_fifo_get_no_wait s
      else k_fifo_get_timeout cfg edges (ps2_gpio_scl_interrupt_handler cfg e s))"

text \<open>\<open>*queue_byte\<close>: the value read through a queued pointer.\<close>

definition deref :: "ps2_gpio_data \<Rightarrow> obj \<Rightarrow> read_value" where
  "deref s p = (case auto_bytes s p of Some v \<Rightarrow> Value v | None \<Rightarrow> Indeterminate)"

text \<open>
  \<open>ps2_gpio_read\<close> returns the error code together with what it stored in \<open>*value\<close>
  (\<open>None\<close> when it stored nothing).
\<close>

definition ps2_gpio_read ::
  "gpio_cfg \<Rightarrow> gpio_in list \<Rightarrow> ps2_gpio_data \<Rightarrow> int \<times> read_value option \<times> ps2_gpio_data" where
  "ps2_gpio_read cfg edges s =
     (case k_fifo_get_timeout cfg edges s of
        (None, s1) \<Rightarrow> (- ETIMEDOUT, None, s1)
      | (Some queue_byte, s1) \<Rightarrow> (0, Some (deref s1 queue_byte), s1))"

definition ps2_gpio_enable_callback :: "ps2_gpio_data \<Rightarrow> int \<times> ps2_gpio_data" where
  "ps2_gpio_enable_callback s =
     (let s1 = s\<lparr>callback_enabled := True\<rparr>;
          s2 = ps2_gpio_empty_data_queue s1
      in (0, s2))"

definition ps2_gpio_disable_callback :: "ps2_gpio_data \<Rightarrow> int \<times> ps2_gpio_data" where
  "ps2_gpio_disable_callback s =
     (let s1 = ps2_gpio_empty_data_queue s;
          s2 = s1\<lparr>callback_enabled := False\<rparr>
      in (0, s2))"

definition ps2_gpio_configure :: "nat option \<Rightarrow> ps2_gpio_data \<Rightarrow> int \<times> ps2_gpio_data" where
  "ps2_gpio_configure callback_isr' s =
     (case callback_isr' of
        None \<Rightarrow> (- EINVAL, s)
      | Some h \<Rightarrow>
          let s1 = s\<lparr>callback_isr := callback_isr'\<rparr>;
              s2 = snd (ps2_gpio_enable_callback s1)
          in (0, s2))"

section \<open>Running the driver\<close>

text \<open>A sequence of clock edges, each handled by the interrupt handler in turn.\<close>

definition run_edges :: "gpio_cfg \<Rightarrow> gpio_in list \<Rightarrow> ps2_gpio_data \<Rightarrow> ps2_gpio_data" where
  "run_edges cfg edges s = foldl (\<lambda>s e. ps2_gpio_scl_interrupt_handler cfg e s) s edges"

text \<open>A GPIO controller on which every configuration succeeds.\<close>

definition gpio_ok :: gpio_cfg where
  "gpio_ok l f = 0"

text \<open>The pin levels at a falling clock edge: the clock reads 0, the data line \<open>v\<close>.\<close>

definition sda_level :: "int \<Rightarrow> gpio_in" where
  "sda_level v l = (case l of SCL \<Rightarrow> 0 | SDA \<Rightarrow> v)"

text \<open>
  A GPIO controller on which configuring line \<open>l\<close> in direction \<open>f\<close> fails with the
  error code \<open>e\<close>, and every other configuration succeeds.
\<close>

definition gpio_fails_at :: "gpio_line \<Rightarrow> gpio_flags \<Rightarrow> int \<Rightarrow> gpio_cfg" where
  "gpio_fails_at l f e l' f' = (if l' = l \<and> f' = f then e else 0)"

text \<open>
  The data-line levels of one received frame, in the order of the clock edges: the start
  bit 0, the eight bits of \<open>b\<close> from the least significant one, the parity bit that the
  driver itself computes for \<open>b\<close>, and the stop bit 1.
\<close>

definition rx_frame :: "8 word \<Rightarrow> int list" where
  "rx_frame b =
     [0,
      PS2_GPIO_GET_BIT b 0, PS2_GPIO_GET_BIT b 1, PS2_GPIO_GET_BIT b 2, PS2_GPIO_GET_BIT b 3,
      PS2_GPIO_GET_BIT b 4, PS2_GPIO_GET_BIT b 5, PS2_GPIO_GET_BIT b 6, PS2_GPIO_GET_BIT b 7,
      int_of_bool (ps2_gpio_get_byte_parity b),
      1]"

text \<open>The receive handler run on a sequence of clock edges with the given data-line levels.\<close>

definition run_read :: "gpio_cfg \<Rightarrow> int list \<Rightarrow> ps2_gpio_data \<Rightarrow> ps2_gpio_data" where
  "run_read cfg levels s =
     foldl (\<lambda>s v. ps2_gpio_scl_interrupt_handler_read cfg (sda_level v) s) s levels"

section \<open>The write frame as the specification describes it\<close>

text \<open>
  Bit 0 is the start bit 0, bits 1 to 8 are the byte (least significant bit first), bit 9
  is the parity bit and bit 10 the stop bit 1. It is compared below with the buffer that
  \<open>ps2_gpio_write_byte_async\<close> packs bit by bit.
\<close>

definition spec_write_frame :: "8 word \<Rightarrow> 16 word" where
  "spec_write_frame byte =
     push_bit 1 (ucast byte) OR push_bit 9 (of_bool (ps2_gpio_get_byte_parity byte))
       OR push_bit 10 1"

section \<open>Abort and resend as the specification describes it\<close>

text \<open>
  The specification resets the read cursor and the accumulator first and then issues the
  resend command 0xfe as an asynchronous write whose result is dropped. The source,
  \<open>ps2_gpio_abort_read\<close>, calls \<open>ps2_gpio_send_cmd_resend\<close> first and resets afterwards.
\<close>

definition spec_abort_and_resend :: "gpio_cfg \<Rightarrow> ps2_gpio_data \<Rightarrow> ps2_gpio_data" where
  "spec_abort_and_resend cfg s =
     snd (ps2_gpio_write_byte_async cfg 0xfe (s\<lparr>cur_read_pos := 0, cur_read_byte := 0\<rparr>))"

section \<open>Basic facts\<close>

lemmas kernel_defs = k_sem_take_no_wait_def k_sem_give_def k_fifo_put_def k_fifo_get_no_wait_def

lemmas gpio_defs = gpio_pin_get_def gpio_pin_set_def gpio_pin_configure_def k_sleep_usec_def
  ps2_gpio_get_scl_def ps2_gpio_get_sda_def ps2_gpio_set_scl_def ps2_gpio_set_sda_def

lemmas macro_defs = PS2_GPIO_GET_BIT_def PS2_GPIO_SET_BIT_def int_of_bool_def

lemmas parity_defs = ps2_gpio_get_byte_parity_def ps2_gpio_check_parity_def

lemmas write_defs = ps2_gpio_scl_interrupt_handler_write_def
  ps2_gpio_scl_interrupt_handler_write_send_bit_def
  ps2_gpio_scl_interrupt_handler_write_check_ack_def

lemma empty_data_queue_eq: "ps2_gpio_empty_data_queue s = s\<lparr>data_queue := []\<rparr>"
proof (induction s rule: ps2_gpio_empty_data_queue.induct)
  case (1 s)
  show ?case
  proof (cases "data_queue s")
    case Nil
    then show ?thesis
      by (subst ps2_gpio_empty_data_queue.simps) (simp add: k_fifo_get_no_wait_def)
  next
    case (Cons x xs)
    then have "ps2_gpio_empty_data_queue s = ps2_gpio_empty_data_queue (s\<lparr>data_queue := xs\<rparr>)"
      by (subst ps2_gpio_empty_data_queue.simps) (simp add: k_fifo_get_no_wait_def)
    also have "\<dots> = (s\<lparr>data_queue := xs\<rparr>)\<lparr>data_queue := []\<rparr>"
      using Cons "1.IH" by (simp add: k_fifo_get_no_wait_def)
    finally show ?thesis by simp
  qed
qed

lemma bit_twice_right:
  "bit ((a::'a::len word) * 2) n \<longleftrightarrow> n < LENGTH('a) \<and> n \<noteq> 0 \<and> bit a (n - 1)"
  using bit_double_iff [of a n] by (simp add: mult.commute)

lemma bit_byte_high: "8 \<le> n \<Longrightarrow> \<not> bit (w :: 8 word) n"
  using bit_imp_le_length [of w n] by auto

text \<open>The eleven \<open>PS2_GPIO_SET_BIT\<close> steps of the source build the frame of the specification.\<close>

lemma packed_frame:
  "PS2_GPIO_SET_BIT (PS2_GPIO_SET_BIT (PS2_GPIO_SET_BIT (PS2_GPIO_SET_BIT (PS2_GPIO_SET_BIT
     (PS2_GPIO_SET_BIT (PS2_GPIO_SET_BIT (PS2_GPIO_SET_BIT (PS2_GPIO_SET_BIT (PS2_GPIO_SET_BIT
     (PS2_GPIO_SET_BIT (0 :: 16 word) 0 0)
       (PS2_GPIO_GET_BIT byte 0) 1) (PS2_GPIO_GET_BIT byte 1) 2) (PS2_GPIO_GET_BIT byte 2) 3)
       (PS2_GPIO_GET_BIT byte 3) 4) (PS2_GPIO_GET_BIT byte 4) 5) (PS2_GPIO_GET_BIT byte 5) 6)
       (PS2_GPIO_GET_BIT byte 6) 7) (PS2_GPIO_GET_BIT byte 7) 8)
       (int_of_bool (ps2_gpio_get_byte_parity byte)) 9) 1 10
   = spec_write_frame (byte :: 8 word)"
  (is "?packed = _")
proof (rule bit_word_eqI)
  fix n assume "n < LENGTH(16)"
  then have "n < 16" by simp
  then consider "n = 0" | "n = 1" | "n = 2" | "n = 3" | "n = 4" | "n = 5" | "n = 6" | "n = 7"
    | "n = 8" | "n = 9" | "n = 10" | "n = 11" | "n = 12" | "n = 13" | "n = 14" | "n = 15"
    by atomize_elim presburger
  then show "bit ?packed n \<longleftrightarrow> bit (spec_write_frame byte) n"
    by cases
      (simp_all add: macro_defs spec_write_frame_def bit_simps bit_twice_right bit_byte_high)
qed

text \<open>
  What \<open>ps2_gpio_write_byte_async\<close> does, read as three nested early returns. The
  non-blocking take leaves the count at \<open>write_lock s - 1\<close> in both of its outcomes (0 stays
  0), and neither outcome is the hard error of the first \<open>if\<close>.
\<close>

lemma write_byte_async_eq:
  "ps2_gpio_write_byte_async cfg byte s =
     (let s3 = s\<lparr>write_lock := write_lock s - 1, write_buffer := spec_write_frame byte,
                 mode := PS2_GPIO_MODE_WRITE, cur_write_pos := 0,
                 line_log := line_log s @ [Gpio_pin_configure SCL GPIO_OUTPUT_LOW]\<rparr>
      in
      if cfg SCL GPIO_OUTPUT_LOW \<noteq> 0 then (cfg SCL GPIO_OUTPUT_LOW, s3)
      else
        let s6 = s3\<lparr>cur_write_status := PS2_GPIO_WRITE_STATUS_ACTIVE,
                    cur_read_byte := 0, cur_read_pos := 0,
                    line_log := line_log s3
                      @ [K_sleep_usec 100, Gpio_pin_configure SDA GPIO_OUTPUT_LOW]\<rparr>
        in
        if cfg SDA GPIO_OUTPUT_LOW \<noteq> 0 then (cfg SDA GPIO_OUTPUT_LOW, s6)
        else
          (cfg SCL GPIO_INPUT,
           s6\<lparr>cur_write_pos := 1,
              line_log := line_log s6
                @ [Gpio_pin_set SDA 1, Gpio_pin_configure SCL GPIO_INPUT]\<rparr>))"
  apply (simp add: ps2_gpio_write_byte_async_def kernel_defs Let_def)
  apply (simp add: gpio_defs packed_frame Let_def)
  done

lemma init_fields:
  "mode ps2_gpio_data_init = PS2_GPIO_MODE_READ"
  "cur_read_pos ps2_gpio_data_init = 0"
  "cur_read_byte ps2_gpio_data_init = 0"
  "cur_write_status ps2_gpio_data_init = PS2_GPIO_WRITE_STATUS_INACTIVE"
  "write_lock ps2_gpio_data_init = 0"
  "write_lock_gives ps2_gpio_data_init = 0"
  "data_queue ps2_gpio_data_init = []"
  "callback_log ps2_gpio_data_init = []"
  "callback_isr ps2_gpio_data_init = None"
  "callback_enabled ps2_gpio_data_init = False"
  "next_obj ps2_gpio_data_init = 0"
  "auto_bytes ps2_gpio_data_init = Map.empty"
  by (simp_all add: ps2_gpio_data_init_def)

lemma async_01_state:
  "ps2_gpio_write_byte_async gpio_ok 0x01 ps2_gpio_data_init =
     (0, ps2_gpio_data_init\<lparr>write_buffer := spec_write_frame 0x01, mode := PS2_GPIO_MODE_WRITE,
            cur_write_status := PS2_GPIO_WRITE_STATUS_ACTIVE, cur_write_pos := 1,
            line_log := [Gpio_pin_configure SCL GPIO_OUTPUT_LOW, K_sleep_usec 100,
               Gpio_pin_configure SDA GPIO_OUTPUT_LOW, Gpio_pin_set SDA 1,
               Gpio_pin_configure SCL GPIO_INPUT]\<rparr>)"
  by (simp add: write_byte_async_eq gpio_ok_def Let_def ps2_gpio_data_init_def)

lemma run_edges_Cons:
  "run_edges cfg (e # es) s = run_edges cfg es (ps2_gpio_scl_interrupt_handler cfg e s)"
  by (simp add: run_edges_def)

lemma run_edges_Nil: "run_edges cfg [] s = s"
  by (simp add: run_edges_def)

text \<open>One clock edge in write mode, by position.\<close>

lemma write_edge_send_bit:
  assumes "mode s = PS2_GPIO_MODE_WRITE" "1 \<le> cur_write_pos s" "cur_write_pos s \<le> 9"
  shows "ps2_gpio_scl_interrupt_handler cfg pins s =
     s\<lparr>line_log := line_log s
         @ [Gpio_pin_set SCL (PS2_GPIO_GET_BIT (write_buffer s) (cur_write_pos s))],
       cur_write_pos := cur_write_pos s + 1\<rparr>"
  using assms by (simp add: ps2_gpio_scl_interrupt_handler_def write_defs gpio_defs Let_def)

lemma write_edge_stop:
  assumes "mode s = PS2_GPIO_MODE_WRITE" "cur_write_pos s = 10"
  shows "ps2_gpio_scl_interrupt_handler cfg pins s =
     s\<lparr>line_log := line_log s @ [Gpio_pin_set SCL (PS2_GPIO_GET_BIT (write_buffer s) 10),
                                 Gpio_pin_configure SDA GPIO_INPUT],
       cur_write_pos := 11\<rparr>"
  using assms by (simp add: ps2_gpio_scl_interrupt_handler_def write_defs gpio_defs Let_def)

lemma write_edge_ack:
  assumes "mode s = PS2_GPIO_MODE_WRITE" "cur_write_pos s = 11"
  shows "ps2_gpio_scl_interrupt_handler cfg pins s =
     s\<lparr>cur_write_status := (if pins SDA = 0 then PS2_GPIO_WRITE_STATUS_SUCCESS
                              else PS2_GPIO_WRITE_STATUS_FAILURE),
       mode := PS2_GPIO_MODE_READ, write_buffer := 0,
       write_lock := (if write_lock s < 1 then write_lock s + 1 else write_lock s),
       write_lock_gives := write_lock_gives s + 1,
       cur_write_pos := 1\<rparr>"
  using assms
  by (simp add: ps2_gpio_scl_interrupt_handler_def write_defs gpio_defs Let_def k_sem_give_def)

section \<open>Parity round trip\<close>

text \<open>
  C7. For every byte \<open>b\<close>, validating \<open>b\<close> against the parity bit computed for it succeeds,
  validating it against the flipped bit fails, and the parity bit is 1 exactly when the
  number of set bits of \<open>b\<close> is even (the negation of the popcount parity).
\<close>

theorem parity_round_trip:
  "ps2_gpio_check_parity b (int_of_bool (ps2_gpio_get_byte_parity b)) = True
   \<and> ps2_gpio_check_parity b (1 - int_of_bool (ps2_gpio_get_byte_parity b)) = False
   \<and> ps2_gpio_get_byte_parity b = (builtin_parity b \<noteq> 1)
   \<and> int_of_bool (ps2_gpio_get_byte_parity b)
        = (if even (length (filter (bit b) [0..<8])) then 1 else 0)"
  by (simp add: parity_defs int_of_bool_def builtin_parity_def)

theorem parity_round_trip_witness:
  "ps2_gpio_get_byte_parity 0x45 = False
   \<and> ps2_gpio_check_parity 0x45 0 = True
   \<and> ps2_gpio_check_parity 0x45 1 = False"
proof -
  have "builtin_parity (0x45 :: 8 word) = 1"
    by (simp add: builtin_parity_def upt_conv_Cons)
  then have p: "ps2_gpio_get_byte_parity 0x45 = False"
    by (simp add: ps2_gpio_get_byte_parity_def)
  have "ps2_gpio_check_parity 0x45 (int_of_bool False) = True
        \<and> ps2_gpio_check_parity 0x45 (1 - int_of_bool False) = False"
    using parity_round_trip [of "0x45"] unfolding p by blast
  then show ?thesis
    using p by (simp add: int_of_bool_def)
qed

section \<open>Transmission\<close>

text \<open>
  C1. In write mode at positions 1 to 9 the handler is to drive the data line (SDA) to the
  bit of \<open>write_buffer\<close> at \<open>cur_write_pos\<close> and advance the cursor. Evaluated on the first
  clock edge after a write of 0x01 was started (mode Write, cursor 1, buffer 0x402, whose
  bit 1 is set): the cursor advances to 2, but the level 1 is written with
  \<open>gpio_pin_set\<close> to the clock line SCL; no level is written to SDA.
\<close>

theorem write_send_bit_drives_clock_line:
  "mode (snd (ps2_gpio_write_byte_async gpio_ok 0x01 ps2_gpio_data_init)) = PS2_GPIO_MODE_WRITE
   \<and> cur_write_pos (snd (ps2_gpio_write_byte_async gpio_ok 0x01 ps2_gpio_data_init)) = 1
   \<and> write_buffer (snd (ps2_gpio_write_byte_async gpio_ok 0x01 ps2_gpio_data_init)) = 0x402
   \<and> line_log (ps2_gpio_scl_interrupt_handler gpio_ok (sda_level 0)
        (snd (ps2_gpio_write_byte_async gpio_ok 0x01 ps2_gpio_data_init)))
      = line_log (snd (ps2_gpio_write_byte_async gpio_ok 0x01 ps2_gpio_data_init))
          @ [Gpio_pin_set SCL 1]
   \<and> cur_write_pos (ps2_gpio_scl_interrupt_handler gpio_ok (sda_level 0)
        (snd (ps2_gpio_write_byte_async gpio_ok 0x01 ps2_gpio_data_init))) = 2"
  by (simp add: ps2_gpio_write_byte_async_def ps2_gpio_data_init_def kernel_defs gpio_defs
      macro_defs parity_defs builtin_parity_def upt_conv_Cons Let_def gpio_ok_def
      ps2_gpio_scl_interrupt_handler_def write_defs)

text \<open>
  C3. After the clock edge at the acknowledgment position, \<open>write_status\<close> is to be Success
  for a sampled 0, the mode Read, the buffer 0, the gate released once and the write cursor
  at the start position 0. Evaluated on a write of 0x01 from the initial state: after ten
  edges the driver is in write mode at position 11; after the eleventh edge, which samples
  the acknowledgment 0, the status is Success, the mode Read, the buffer 0 and
  \<open>k_sem_give\<close> was called once, but the write cursor is 1: the handler increments it
  after \<open>ps2_gpio_scl_interrupt_handler_write_check_ack\<close> has reset it to 0.
\<close>

theorem write_ack_edge_leaves_cursor_at_one:
  "mode (run_edges gpio_ok (replicate 10 (sda_level 0))
           (snd (ps2_gpio_write_byte_async gpio_ok 0x01 ps2_gpio_data_init))) = PS2_GPIO_MODE_WRITE
   \<and> cur_write_pos (run_edges gpio_ok (replicate 10 (sda_level 0))
           (snd (ps2_gpio_write_byte_async gpio_ok 0x01 ps2_gpio_data_init))) = 11
   \<and> cur_write_status (run_edges gpio_ok (replicate 11 (sda_level 0))
           (snd (ps2_gpio_write_byte_async gpio_ok 0x01 ps2_gpio_data_init)))
       = PS2_GPIO_WRITE_STATUS_SUCCESS
   \<and> mode (run_edges gpio_ok (replicate 11 (sda_level 0))
           (snd (ps2_gpio_write_byte_async gpio_ok 0x01 ps2_gpio_data_init))) = PS2_GPIO_MODE_READ
   \<and> write_buffer (run_edges gpio_ok (replicate 11 (sda_level 0))
           (snd (ps2_gpio_write_byte_async gpio_ok 0x01 ps2_gpio_data_init))) = 0
   \<and> write_lock_gives (run_edges gpio_ok (replicate 11 (sda_level 0))
           (snd (ps2_gpio_write_byte_async gpio_ok 0x01 ps2_gpio_data_init))) = 1
   \<and> cur_write_pos (run_edges gpio_ok (replicate 11 (sda_level 0))
           (snd (ps2_gpio_write_byte_async gpio_ok 0x01 ps2_gpio_data_init))) = 1"
  by (simp add: async_01_state numeral_eq_Suc run_edges_Cons run_edges_Nil
        write_edge_send_bit write_edge_stop write_edge_ack sda_level_def init_fields)

section \<open>Starting a write\<close>

text \<open>
  C2 as stated fails: a second asynchronous write, requested while the first is active and
  the semaphore count is 0, returns 0 and replaces the buffer 0x402 of the first byte 0x01
  by the frame 0x5fc of the second byte 0xfe.
\<close>

theorem write_async_while_active_proceeds:
  "write_lock (snd (ps2_gpio_write_byte_async gpio_ok 0x01 ps2_gpio_data_init)) = 0
   \<and> cur_write_status (snd (ps2_gpio_write_byte_async gpio_ok 0x01 ps2_gpio_data_init))
       = PS2_GPIO_WRITE_STATUS_ACTIVE
   \<and> write_buffer (snd (ps2_gpio_write_byte_async gpio_ok 0x01 ps2_gpio_data_init)) = 0x402
   \<and> fst (ps2_gpio_write_byte_async gpio_ok 0xfe
         (snd (ps2_gpio_write_byte_async gpio_ok 0x01 ps2_gpio_data_init))) = 0
   \<and> write_buffer (snd (ps2_gpio_write_byte_async gpio_ok 0xfe
         (snd (ps2_gpio_write_byte_async gpio_ok 0x01 ps2_gpio_data_init)))) = 0x5fc"
  by (simp add: ps2_gpio_write_byte_async_def ps2_gpio_data_init_def kernel_defs gpio_defs
      macro_defs parity_defs builtin_parity_def upt_conv_Cons Let_def gpio_ok_def)

text \<open>
  C2, amended. When an asynchronous write is requested while the gate is held (count 0),
  the non-blocking take reports \<open>-EBUSY\<close>, which the request tolerates: it is not rejected
  but handled exactly as a request that finds the gate free, so it packs the new frame
  into \<open>write_buffer\<close> and sets the mode to Write, and when the three line configurations
  succeed it returns 0 with the status Active and the cursor at 1.
\<close>

theorem write_async_busy_tolerated:
  assumes "write_lock s = 0"
  shows "k_sem_take_no_wait s = (- EBUSY, s)
    \<and> ps2_gpio_write_byte_async cfg byte (s\<lparr>write_lock := 1\<rparr>)
        = ps2_gpio_write_byte_async cfg byte s
    \<and> write_buffer (snd (ps2_gpio_write_byte_async cfg byte s)) = spec_write_frame byte
    \<and> mode (snd (ps2_gpio_write_byte_async cfg byte s)) = PS2_GPIO_MODE_WRITE
    \<and> (cfg SCL GPIO_OUTPUT_LOW = 0 \<and> cfg SDA GPIO_OUTPUT_LOW = 0 \<and> cfg SCL GPIO_INPUT = 0
        \<longrightarrow> fst (ps2_gpio_write_byte_async cfg byte s) = 0
          \<and> cur_write_status (snd (ps2_gpio_write_byte_async cfg byte s))
              = PS2_GPIO_WRITE_STATUS_ACTIVE
          \<and> cur_write_pos (snd (ps2_gpio_write_byte_async cfg byte s)) = 1)"
  using assms by (simp add: write_byte_async_eq k_sem_take_no_wait_def Let_def)

theorem write_async_busy_tolerated_witness:
  "write_lock ps2_gpio_data_init = 0
   \<and> fst (ps2_gpio_write_byte_async gpio_ok 0xfe ps2_gpio_data_init) = 0
   \<and> mode (snd (ps2_gpio_write_byte_async gpio_ok 0xfe ps2_gpio_data_init)) = PS2_GPIO_MODE_WRITE
   \<and> write_buffer (snd (ps2_gpio_write_byte_async gpio_ok 0xfe ps2_gpio_data_init))
       = spec_write_frame 0xfe"
proof -
  have h: "write_lock ps2_gpio_data_init = 0"
    by (simp add: ps2_gpio_data_init_def)
  show ?thesis
    using h write_async_busy_tolerated [OF h, of gpio_ok "0xfe"] by (simp add: gpio_ok_def)
qed

text \<open>
  C4 as stated fails: when configuring the clock line as output fails with -5 during a
  write started from the initial state (mode Read), the error -5 is returned and the mode
  is left at Write.
\<close>

theorem write_async_config_error_leaves_write_mode:
  "mode ps2_gpio_data_init = PS2_GPIO_MODE_READ
   \<and> fst (ps2_gpio_write_byte_async (gpio_fails_at SCL GPIO_OUTPUT_LOW (- 5)) 0x01
         ps2_gpio_data_init) = - 5
   \<and> mode (snd (ps2_gpio_write_byte_async (gpio_fails_at SCL GPIO_OUTPUT_LOW (- 5)) 0x01
         ps2_gpio_data_init)) = PS2_GPIO_MODE_WRITE"
  by (simp add: write_byte_async_eq ps2_gpio_data_init_def gpio_fails_at_def Let_def)

text \<open>
  C4, amended. When asynchronous write initiation fails due to a line-configuration error,
  the error code of the failing configuration is returned to the caller and the state is
  left as it was reached, not rolled back: the mode stays Write and the gate is not
  released. If the clock line cannot be made an output, the write cursor is at the start
  position and the read cursor, the accumulator and the status are untouched; if the data
  line cannot be made an output, the write cursor is at the start position, the read state
  is reset and the status is Active; if the clock line cannot be made an input again, the
  same holds with the write cursor at 1.
\<close>

theorem write_async_config_error_state:
  "(cfg SCL GPIO_OUTPUT_LOW \<noteq> 0 \<longrightarrow>
       fst (ps2_gpio_write_byte_async cfg byte s) = cfg SCL GPIO_OUTPUT_LOW
     \<and> mode (snd (ps2_gpio_write_byte_async cfg byte s)) = PS2_GPIO_MODE_WRITE
     \<and> cur_write_pos (snd (ps2_gpio_write_byte_async cfg byte s)) = 0
     \<and> cur_read_pos (snd (ps2_gpio_write_byte_async cfg byte s)) = cur_read_pos s
     \<and> cur_read_byte (snd (ps2_gpio_write_byte_async cfg byte s)) = cur_read_byte s
     \<and> cur_write_status (snd (ps2_gpio_write_byte_async cfg byte s)) = cur_write_status s)
   \<and> (cfg SCL GPIO_OUTPUT_LOW = 0 \<and> cfg SDA GPIO_OUTPUT_LOW \<noteq> 0 \<longrightarrow>
       fst (ps2_gpio_write_byte_async cfg byte s) = cfg SDA GPIO_OUTPUT_LOW
     \<and> mode (snd (ps2_gpio_write_byte_async cfg byte s)) = PS2_GPIO_MODE_WRITE
     \<and> cur_write_pos (snd (ps2_gpio_write_byte_async cfg byte s)) = 0
     \<and> cur_read_pos (snd (ps2_gpio_write_byte_async cfg byte s)) = 0
     \<and> cur_read_byte (snd (ps2_gpio_write_byte_async cfg byte s)) = 0
     \<and> cur_write_status (snd (ps2_gpio_write_byte_async cfg byte s))
         = PS2_GPIO_WRITE_STATUS_ACTIVE)
   \<and> (cfg SCL GPIO_OUTPUT_LOW = 0 \<and> cfg SDA GPIO_OUTPUT_LOW = 0 \<and> cfg SCL GPIO_INPUT \<noteq> 0 \<longrightarrow>
       fst (ps2_gpio_write_byte_async cfg byte s) = cfg SCL GPIO_INPUT
     \<and> mode (snd (ps2_gpio_write_byte_async cfg byte s)) = PS2_GPIO_MODE_WRITE
     \<and> cur_write_pos (snd (ps2_gpio_write_byte_async cfg byte s)) = 1
     \<and> cur_read_pos (snd (ps2_gpio_write_byte_async cfg byte s)) = 0
     \<and> cur_read_byte (snd (ps2_gpio_write_byte_async cfg byte s)) = 0
     \<and> cur_write_status (snd (ps2_gpio_write_byte_async cfg byte s))
         = PS2_GPIO_WRITE_STATUS_ACTIVE)
   \<and> write_lock_gives (snd (ps2_gpio_write_byte_async cfg byte s)) = write_lock_gives s"
  by (simp add: write_byte_async_eq Let_def)

theorem write_async_config_error_state_witness:
  "fst (ps2_gpio_write_byte_async (gpio_fails_at SCL GPIO_OUTPUT_LOW (- 5)) 0x01
          ps2_gpio_data_init) = - 5
   \<and> cur_write_pos (snd (ps2_gpio_write_byte_async (gpio_fails_at SCL GPIO_OUTPUT_LOW (- 5)) 0x01
          ps2_gpio_data_init)) = 0
   \<and> fst (ps2_gpio_write_byte_async (gpio_fails_at SDA GPIO_OUTPUT_LOW (- 5)) 0x01
          ps2_gpio_data_init) = - 5
   \<and> mode (snd (ps2_gpio_write_byte_async (gpio_fails_at SDA GPIO_OUTPUT_LOW (- 5)) 0x01
          ps2_gpio_data_init)) = PS2_GPIO_MODE_WRITE
   \<and> fst (ps2_gpio_write_byte_async (gpio_fails_at SCL GPIO_INPUT (- 5)) 0x01
          ps2_gpio_data_init) = - 5
   \<and> cur_write_pos (snd (ps2_gpio_write_byte_async (gpio_fails_at SCL GPIO_INPUT (- 5)) 0x01
          ps2_gpio_data_init)) = 1"
  using write_async_config_error_state
          [of "gpio_fails_at SCL GPIO_OUTPUT_LOW (- 5)" "0x01" ps2_gpio_data_init]
        write_async_config_error_state
          [of "gpio_fails_at SDA GPIO_OUTPUT_LOW (- 5)" "0x01" ps2_gpio_data_init]
        write_async_config_error_state
          [of "gpio_fails_at SCL GPIO_INPUT (- 5)" "0x01" ps2_gpio_data_init]
  by (simp add: gpio_fails_at_def)

section \<open>Reception\<close>

text \<open>One clock edge handled by the receive handler, by position.\<close>

lemma read_edge_start_ok:
  assumes "cur_read_pos s = 0" "pins SDA = 0"
  shows "ps2_gpio_scl_interrupt_handler_read cfg pins s = s\<lparr>cur_read_pos := 1\<rparr>"
  using assms by (simp add: ps2_gpio_scl_interrupt_handler_read_def gpio_defs Let_def)

lemma read_edge_data:
  assumes "1 \<le> cur_read_pos s" "cur_read_pos s \<le> 8"
  shows "ps2_gpio_scl_interrupt_handler_read cfg pins s =
     s\<lparr>cur_read_byte := PS2_GPIO_SET_BIT (cur_read_byte s) (pins SDA) (cur_read_pos s - 1),
       cur_read_pos := cur_read_pos s + 1\<rparr>"
  using assms by (simp add: ps2_gpio_scl_interrupt_handler_read_def gpio_defs Let_def)

lemma read_edge_parity_ok:
  assumes "cur_read_pos s = 9" "ps2_gpio_check_parity (cur_read_byte s) (pins SDA)"
  shows "ps2_gpio_scl_interrupt_handler_read cfg pins s = s\<lparr>cur_read_pos := 10\<rparr>"
  using assms by (simp add: ps2_gpio_scl_interrupt_handler_read_def gpio_defs Let_def)

lemma read_edge_stop_ok:
  assumes "cur_read_pos s = 10" "pins SDA = 1"
  shows "ps2_gpio_scl_interrupt_handler_read cfg pins s =
     (ps2_gpio_process_received_byte (cur_read_byte s) s)\<lparr>cur_read_pos := 0, cur_read_byte := 0\<rparr>"
  using assms by (simp add: ps2_gpio_scl_interrupt_handler_read_def gpio_defs Let_def)

lemma read_edge_abort:
  assumes "(cur_read_pos s = 0 \<and> pins SDA \<noteq> 0)
         \<or> (cur_read_pos s = 9 \<and> \<not> ps2_gpio_check_parity (cur_read_byte s) (pins SDA))
         \<or> (cur_read_pos s = 10 \<and> pins SDA \<noteq> 1)"
  shows "ps2_gpio_scl_interrupt_handler_read cfg pins s = ps2_gpio_abort_read cfg s"
  using assms by (auto simp add: ps2_gpio_scl_interrupt_handler_read_def gpio_defs Let_def)

lemma received_byte:
  "PS2_GPIO_SET_BIT (PS2_GPIO_SET_BIT (PS2_GPIO_SET_BIT (PS2_GPIO_SET_BIT
     (PS2_GPIO_SET_BIT (PS2_GPIO_SET_BIT (PS2_GPIO_SET_BIT (PS2_GPIO_SET_BIT (0 :: 8 word)
       (PS2_GPIO_GET_BIT b 0) 0) (PS2_GPIO_GET_BIT b 1) 1) (PS2_GPIO_GET_BIT b 2) 2)
       (PS2_GPIO_GET_BIT b 3) 3) (PS2_GPIO_GET_BIT b 4) 4) (PS2_GPIO_GET_BIT b 5) 5)
       (PS2_GPIO_GET_BIT b 6) 6) (PS2_GPIO_GET_BIT b 7) 7
   = (b :: 8 word)"
  (is "?acc = _")
proof (rule bit_word_eqI)
  fix n assume "n < LENGTH(8)"
  then have "n < 8" by simp
  then consider "n = 0" | "n = 1" | "n = 2" | "n = 3" | "n = 4" | "n = 5" | "n = 6" | "n = 7"
    by atomize_elim presburger
  then show "bit ?acc n \<longleftrightarrow> bit b n"
    by cases (simp_all add: macro_defs bit_simps)
qed

lemma read_idle_unchanged:
  assumes "cur_read_pos s = 0" "cur_read_byte s = 0"
  shows "s\<lparr>cur_read_byte := 0, cur_read_pos := 0\<rparr> = s"
  using assms by (cases s) simp

lemma process_received_byte_eq:
  "ps2_gpio_process_received_byte byte s =
     (if callback_isr s \<noteq> None \<and> callback_enabled s
      then s\<lparr>next_obj := next_obj s + 1, auto_bytes := (auto_bytes s)(next_obj s := None),
             callback_log := callback_log s @ [(the (callback_isr s), byte)]\<rparr>
      else s\<lparr>next_obj := next_obj s + 1, auto_bytes := (auto_bytes s)(next_obj s := None),
             data_queue := data_queue s @ [next_obj s]\<rparr>)"
  by (simp add: ps2_gpio_process_received_byte_def k_fifo_put_def Let_def split: option.split)

text \<open>
  The eleven edges of a well-formed frame amount to one call of the delivery routine with
  the byte of the frame: the receive state machine itself hands over the right value.
\<close>

lemma run_read_frame:
  assumes "cur_read_pos s = 0" "cur_read_byte s = 0"
  shows "run_read cfg (rx_frame b) s = ps2_gpio_process_received_byte b s"
proof -
  have parity: "ps2_gpio_check_parity b (int_of_bool (ps2_gpio_get_byte_parity b))"
    by (simp add: parity_defs int_of_bool_def builtin_parity_def)
  have "run_read cfg (rx_frame b) s =
          (ps2_gpio_process_received_byte b (s\<lparr>cur_read_byte := b, cur_read_pos := 10\<rparr>))
            \<lparr>cur_read_pos := 0, cur_read_byte := 0\<rparr>"
    using assms parity
    by (simp add: run_read_def rx_frame_def read_edge_start_ok read_edge_data
          read_edge_parity_ok read_edge_stop_ok sda_level_def received_byte)
  also have "\<dots> = ps2_gpio_process_received_byte b (s\<lparr>cur_read_byte := 0, cur_read_pos := 0\<rparr>)"
    by (simp add: process_received_byte_eq)
  finally show ?thesis
    using assms by (simp add: read_idle_unchanged)
qed

lemma read_of_queued_pointer:
  "data_queue s = q # qs \<Longrightarrow>
   ps2_gpio_read cfg edges s = (0, Some (deref s q), s\<lparr>data_queue := qs\<rparr>)"
  by (cases edges) (simp_all add: ps2_gpio_read_def k_fifo_get_no_wait_def deref_def)

text \<open>
  C5. The frame start bit 0, the bits of a byte \<open>b\<close> least significant first, the parity
  bit of \<open>b\<close> and stop bit 1, fed from cursor 0 and an empty accumulator, is to deliver
  \<open>b\<close> exactly once to the delivery sink and leave cursor and accumulator at 0. Evaluated
  for \<open>b\<close> = 0x45 on the initial state, where no callback is registered: cursor and
  accumulator are 0 afterwards and the callback was not called, but the queue does not hold
  the byte. It holds one pointer, to the parameter object of the delivery routine, whose
  lifetime has ended; \<open>ps2_gpio_read\<close> then returns 0 and stores an indeterminate value.
\<close>

theorem receive_frame_queues_dead_parameter:
  "cur_read_pos (run_read gpio_ok (rx_frame 0x45) ps2_gpio_data_init) = 0
   \<and> cur_read_byte (run_read gpio_ok (rx_frame 0x45) ps2_gpio_data_init) = 0
   \<and> callback_log (run_read gpio_ok (rx_frame 0x45) ps2_gpio_data_init) = []
   \<and> data_queue (run_read gpio_ok (rx_frame 0x45) ps2_gpio_data_init) = [0]
   \<and> auto_bytes (run_read gpio_ok (rx_frame 0x45) ps2_gpio_data_init) 0 = None
   \<and> fst (ps2_gpio_read gpio_ok [] (run_read gpio_ok (rx_frame 0x45) ps2_gpio_data_init)) = 0
   \<and> fst (snd (ps2_gpio_read gpio_ok []
        (run_read gpio_ok (rx_frame 0x45) ps2_gpio_data_init))) = Some Indeterminate"
proof -
  have run: "run_read gpio_ok (rx_frame 0x45) ps2_gpio_data_init
               = ps2_gpio_data_init\<lparr>next_obj := 1, data_queue := [0]\<rparr>"
    by (simp add: run_read_frame init_fields process_received_byte_eq ps2_gpio_data_init_def)
  have q: "data_queue (ps2_gpio_data_init\<lparr>next_obj := 1, data_queue := [0]\<rparr>) = 0 # []"
    by simp
  show ?thesis
    unfolding run read_of_queued_pointer [OF q] by (simp add: init_fields deref_def)
qed

lemma abort_read_eq_spec: "ps2_gpio_abort_read cfg s = spec_abort_and_resend cfg s"
  by (simp add: ps2_gpio_abort_read_def ps2_gpio_send_cmd_resend_def spec_abort_and_resend_def
        write_byte_async_eq Let_def)

lemma abort_read_fields:
  "cur_read_pos (ps2_gpio_abort_read cfg s) = 0"
  "cur_read_byte (ps2_gpio_abort_read cfg s) = 0"
  "data_queue (ps2_gpio_abort_read cfg s) = data_queue s"
  "callback_log (ps2_gpio_abort_read cfg s) = callback_log s"
  by (simp_all add: ps2_gpio_abort_read_def ps2_gpio_send_cmd_resend_def
        write_byte_async_eq Let_def)

lemma resend_frame: "spec_write_frame 0xfe = 0x5fc"
  by (simp add: spec_write_frame_def parity_defs builtin_parity_def upt_conv_Cons)

text \<open>What the resend inside the abort has started, whatever the GPIO controller answers.\<close>

lemma abort_read_starts_write:
  "mode (ps2_gpio_abort_read cfg s) = PS2_GPIO_MODE_WRITE"
  "write_buffer (ps2_gpio_abort_read cfg s) = 0x5fc"
  "cur_write_pos (ps2_gpio_abort_read cfg s) \<in> {0, 1}"
  "take (Suc (length (line_log s))) (line_log (ps2_gpio_abort_read cfg s))
     = line_log s @ [Gpio_pin_configure SCL GPIO_OUTPUT_LOW]"
  by (simp_all add: ps2_gpio_abort_read_def ps2_gpio_send_cmd_resend_def
        write_byte_async_eq Let_def resend_frame)

lemma abort_read_lines_ok:
  assumes "cfg SCL GPIO_OUTPUT_LOW = 0" "cfg SDA GPIO_OUTPUT_LOW = 0" "cfg SCL GPIO_INPUT = 0"
  shows "ps2_gpio_abort_read cfg s =
     s\<lparr>cur_read_pos := 0, cur_read_byte := 0,
       write_lock := write_lock s - 1, write_buffer := 0x5fc,
       mode := PS2_GPIO_MODE_WRITE, cur_write_status := PS2_GPIO_WRITE_STATUS_ACTIVE,
       cur_write_pos := 1,
       line_log := line_log s
         @ [Gpio_pin_configure SCL GPIO_OUTPUT_LOW, K_sleep_usec 100,
            Gpio_pin_configure SDA GPIO_OUTPUT_LOW, Gpio_pin_set SDA 1,
            Gpio_pin_configure SCL GPIO_INPUT]\<rparr>"
  using assms
  by (simp add: ps2_gpio_abort_read_def ps2_gpio_send_cmd_resend_def
        write_byte_async_eq Let_def resend_frame)

text \<open>
  C6. On a receive validation failure (data line not 0 at cursor 0, parity check failing
  at cursor 9, data line not 1 at cursor 10) the read cursor and the accumulator are 0
  afterwards (the cursor does not advance), nothing is delivered (queue and callback log
  are unchanged), and a resend has been issued as an asynchronous write whose result is
  ignored: the mode is Write, the write buffer holds the frame 0x5fc of the resend command
  0xfe, and the first line operation added is the bus request that makes the clock line an
  output. When the three line configurations succeed, the whole resulting state is the
  old one with the read state reset and the write of 0xfe started (status Active, write
  cursor 1, the five line operations of the initiation). The state is the one that
  resetting first and resending second leaves, and also the one of the source's order,
  resend first and reset second.
\<close>

theorem read_validation_failure_aborts:
  assumes "(cur_read_pos s = 0 \<and> pins SDA \<noteq> 0)
         \<or> (cur_read_pos s = 9 \<and> \<not> ps2_gpio_check_parity (cur_read_byte s) (pins SDA))
         \<or> (cur_read_pos s = 10 \<and> pins SDA \<noteq> 1)"
  shows "spec_abort_and_resend cfg s = ps2_gpio_scl_interrupt_handler_read cfg pins s
    \<and> (ps2_gpio_send_cmd_resend cfg s)\<lparr>cur_read_pos := 0, cur_read_byte := 0\<rparr>
        = ps2_gpio_scl_interrupt_handler_read cfg pins s
    \<and> cur_read_pos (ps2_gpio_scl_interrupt_handler_read cfg pins s) = 0
    \<and> cur_read_byte (ps2_gpio_scl_interrupt_handler_read cfg pins s) = 0
    \<and> data_queue (ps2_gpio_scl_interrupt_handler_read cfg pins s) = data_queue s
    \<and> callback_log (ps2_gpio_scl_interrupt_handler_read cfg pins s) = callback_log s
    \<and> mode (ps2_gpio_scl_interrupt_handler_read cfg pins s) = PS2_GPIO_MODE_WRITE
    \<and> write_buffer (ps2_gpio_scl_interrupt_handler_read cfg pins s) = 0x5fc
    \<and> take (Suc (length (line_log s)))
         (line_log (ps2_gpio_scl_interrupt_handler_read cfg pins s))
        = line_log s @ [Gpio_pin_configure SCL GPIO_OUTPUT_LOW]
    \<and> (cfg SCL GPIO_OUTPUT_LOW = 0 \<and> cfg SDA GPIO_OUTPUT_LOW = 0 \<and> cfg SCL GPIO_INPUT = 0
        \<longrightarrow> ps2_gpio_scl_interrupt_handler_read cfg pins s =
             s\<lparr>cur_read_pos := 0, cur_read_byte := 0,
               write_lock := write_lock s - 1, write_buffer := 0x5fc,
               mode := PS2_GPIO_MODE_WRITE,
               cur_write_status := PS2_GPIO_WRITE_STATUS_ACTIVE,
               cur_write_pos := 1,
               line_log := line_log s
                 @ [Gpio_pin_configure SCL GPIO_OUTPUT_LOW, K_sleep_usec 100,
                    Gpio_pin_configure SDA GPIO_OUTPUT_LOW, Gpio_pin_set SDA 1,
                    Gpio_pin_configure SCL GPIO_INPUT]\<rparr>)"
proof -
  have h: "ps2_gpio_scl_interrupt_handler_read cfg pins s = ps2_gpio_abort_read cfg s"
    using assms by (rule read_edge_abort)
  have order: "spec_abort_and_resend cfg s = ps2_gpio_abort_read cfg s"
    by (rule abort_read_eq_spec [symmetric])
  have source: "(ps2_gpio_send_cmd_resend cfg s)\<lparr>cur_read_pos := 0, cur_read_byte := 0\<rparr>
                  = ps2_gpio_abort_read cfg s"
    by (simp add: ps2_gpio_abort_read_def)
  show ?thesis
    unfolding h
    using order source abort_read_fields [where cfg = cfg and s = s]
      abort_read_starts_write [where cfg = cfg and s = s]
      abort_read_lines_ok [where cfg = cfg and s = s]
    by blast
qed

theorem read_validation_failure_aborts_witness:
  "ps2_gpio_scl_interrupt_handler_read gpio_ok (sda_level 1) ps2_gpio_data_init
     = ps2_gpio_data_init\<lparr>write_buffer := 0x5fc, mode := PS2_GPIO_MODE_WRITE,
         cur_write_status := PS2_GPIO_WRITE_STATUS_ACTIVE, cur_write_pos := 1,
         line_log := [Gpio_pin_configure SCL GPIO_OUTPUT_LOW, K_sleep_usec 100,
            Gpio_pin_configure SDA GPIO_OUTPUT_LOW, Gpio_pin_set SDA 1,
            Gpio_pin_configure SCL GPIO_INPUT]\<rparr>
   \<and> mode (ps2_gpio_scl_interrupt_handler_read gpio_ok (sda_level 1)
        (ps2_gpio_data_init\<lparr>cur_read_pos := 9, cur_read_byte := 0x45\<rparr>)) = PS2_GPIO_MODE_WRITE
   \<and> cur_read_pos (ps2_gpio_scl_interrupt_handler_read gpio_ok (sda_level 1)
        (ps2_gpio_data_init\<lparr>cur_read_pos := 9, cur_read_byte := 0x45\<rparr>)) = 0
   \<and> write_buffer (ps2_gpio_scl_interrupt_handler_read gpio_ok (sda_level 0)
        (ps2_gpio_data_init\<lparr>cur_read_pos := 10, cur_read_byte := 0x45\<rparr>)) = 0x5fc
   \<and> cur_read_byte (ps2_gpio_scl_interrupt_handler_read gpio_ok (sda_level 0)
        (ps2_gpio_data_init\<lparr>cur_read_pos := 10, cur_read_byte := 0x45\<rparr>)) = 0"
proof -
  let ?p = "ps2_gpio_data_init\<lparr>cur_read_pos := 9, cur_read_byte := 0x45\<rparr>"
  let ?q = "ps2_gpio_data_init\<lparr>cur_read_pos := 10, cur_read_byte := 0x45\<rparr>"
  have parity: "\<not> ps2_gpio_check_parity 0x45 1"
    by (simp add: parity_defs builtin_parity_def upt_conv_Cons)
  have a: "(cur_read_pos ps2_gpio_data_init = 0 \<and> sda_level 1 SDA \<noteq> 0)
         \<or> (cur_read_pos ps2_gpio_data_init = 9
              \<and> \<not> ps2_gpio_check_parity (cur_read_byte ps2_gpio_data_init) (sda_level 1 SDA))
         \<or> (cur_read_pos ps2_gpio_data_init = 10 \<and> sda_level 1 SDA \<noteq> 1)"
    by (simp add: init_fields sda_level_def)
  have b: "(cur_read_pos ?p = 0 \<and> sda_level 1 SDA \<noteq> 0)
         \<or> (cur_read_pos ?p = 9 \<and> \<not> ps2_gpio_check_parity (cur_read_byte ?p) (sda_level 1 SDA))
         \<or> (cur_read_pos ?p = 10 \<and> sda_level 1 SDA \<noteq> 1)"
    using parity by (simp add: sda_level_def)
  have c: "(cur_read_pos ?q = 0 \<and> sda_level 0 SDA \<noteq> 0)
         \<or> (cur_read_pos ?q = 9 \<and> \<not> ps2_gpio_check_parity (cur_read_byte ?q) (sda_level 0 SDA))
         \<or> (cur_read_pos ?q = 10 \<and> sda_level 0 SDA \<noteq> 1)"
    by (simp add: sda_level_def)
  have ok: "gpio_ok SCL GPIO_OUTPUT_LOW = 0 \<and> gpio_ok SDA GPIO_OUTPUT_LOW = 0
            \<and> gpio_ok SCL GPIO_INPUT = 0"
    by (simp add: gpio_ok_def)
  from read_validation_failure_aborts
         [where s = ps2_gpio_data_init and pins = "sda_level 1" and cfg = gpio_ok] a ok
  have 1: "ps2_gpio_scl_interrupt_handler_read gpio_ok (sda_level 1) ps2_gpio_data_init =
             ps2_gpio_data_init\<lparr>cur_read_pos := 0, cur_read_byte := 0,
               write_lock := write_lock ps2_gpio_data_init - 1, write_buffer := 0x5fc,
               mode := PS2_GPIO_MODE_WRITE,
               cur_write_status := PS2_GPIO_WRITE_STATUS_ACTIVE,
               cur_write_pos := 1,
               line_log := line_log ps2_gpio_data_init
                 @ [Gpio_pin_configure SCL GPIO_OUTPUT_LOW, K_sleep_usec 100,
                    Gpio_pin_configure SDA GPIO_OUTPUT_LOW, Gpio_pin_set SDA 1,
                    Gpio_pin_configure SCL GPIO_INPUT]\<rparr>"
    by blast
  from read_validation_failure_aborts [where s = ?p and pins = "sda_level 1" and cfg = gpio_ok] b
  have 2: "mode (ps2_gpio_scl_interrupt_handler_read gpio_ok (sda_level 1) ?p) = PS2_GPIO_MODE_WRITE
         \<and> cur_read_pos (ps2_gpio_scl_interrupt_handler_read gpio_ok (sda_level 1) ?p) = 0"
    by blast
  from read_validation_failure_aborts [where s = ?q and pins = "sda_level 0" and cfg = gpio_ok] c
  have 3: "write_buffer (ps2_gpio_scl_interrupt_handler_read gpio_ok (sda_level 0) ?q) = 0x5fc
         \<and> cur_read_byte (ps2_gpio_scl_interrupt_handler_read gpio_ok (sda_level 0) ?q) = 0"
    by blast
  show ?thesis
    unfolding 1 using 2 3 by (simp add: ps2_gpio_data_init_def)
qed

section \<open>Dispatch\<close>

lemma handler_write_keeps_read_state:
  "cur_read_pos (ps2_gpio_scl_interrupt_handler_write cfg pins s) = cur_read_pos s"
  "cur_read_byte (ps2_gpio_scl_interrupt_handler_write cfg pins s) = cur_read_byte s"
  "data_queue (ps2_gpio_scl_interrupt_handler_write cfg pins s) = data_queue s"
  "callback_log (ps2_gpio_scl_interrupt_handler_write cfg pins s) = callback_log s"
  by (simp_all add: write_defs gpio_defs Let_def k_sem_give_def)

lemma abort_read_ignores_write_state:
  "ps2_gpio_abort_read cfg (s\<lparr>cur_write_pos := p, write_buffer := w\<rparr>) = ps2_gpio_abort_read cfg s"
  by (simp add: ps2_gpio_abort_read_def ps2_gpio_send_cmd_resend_def write_byte_async_eq Let_def)

lemma handler_read_ignores_write_state:
  "ps2_gpio_scl_interrupt_handler_read cfg pins (s\<lparr>cur_write_pos := p, write_buffer := w\<rparr>)
     = (if (cur_read_pos s = 0 \<and> pins SDA \<noteq> 0)
          \<or> (cur_read_pos s = 9 \<and> \<not> ps2_gpio_check_parity (cur_read_byte s) (pins SDA))
          \<or> (cur_read_pos s = 10 \<and> pins SDA \<noteq> 1)
        then ps2_gpio_scl_interrupt_handler_read cfg pins s
        else (ps2_gpio_scl_interrupt_handler_read cfg pins s)\<lparr>cur_write_pos := p, write_buffer := w\<rparr>)"
  by (simp add: ps2_gpio_scl_interrupt_handler_read_def gpio_defs Let_def
        abort_read_ignores_write_state process_received_byte_eq)

text \<open>
  C9. The interrupt handler routes by the mode. In write mode the edge is handled by the
  transmit handler alone, which leaves the read cursor, the accumulator, the queue and the
  callback log as they were. In read mode the edge is handled by the receive handler
  alone, and it is not read as a transmission event: whatever the write cursor and the
  write buffer hold, the resulting read cursor, accumulator, queue, callback log and line
  operations are the same.
\<close>

theorem dispatch_by_mode:
  "(mode s = PS2_GPIO_MODE_WRITE \<longrightarrow>
        ps2_gpio_scl_interrupt_handler cfg pins s = ps2_gpio_scl_interrupt_handler_write cfg pins s
      \<and> cur_read_pos (ps2_gpio_scl_interrupt_handler cfg pins s) = cur_read_pos s
      \<and> cur_read_byte (ps2_gpio_scl_interrupt_handler cfg pins s) = cur_read_byte s
      \<and> data_queue (ps2_gpio_scl_interrupt_handler cfg pins s) = data_queue s
      \<and> callback_log (ps2_gpio_scl_interrupt_handler cfg pins s) = callback_log s)
   \<and> (mode s = PS2_GPIO_MODE_READ \<longrightarrow>
        ps2_gpio_scl_interrupt_handler cfg pins s = ps2_gpio_scl_interrupt_handler_read cfg pins s
      \<and> cur_read_pos (ps2_gpio_scl_interrupt_handler cfg pins (s\<lparr>cur_write_pos := p, write_buffer := w\<rparr>))
          = cur_read_pos (ps2_gpio_scl_interrupt_handler cfg pins s)
      \<and> cur_read_byte (ps2_gpio_scl_interrupt_handler cfg pins (s\<lparr>cur_write_pos := p, write_buffer := w\<rparr>))
          = cur_read_byte (ps2_gpio_scl_interrupt_handler cfg pins s)
      \<and> data_queue (ps2_gpio_scl_interrupt_handler cfg pins (s\<lparr>cur_write_pos := p, write_buffer := w\<rparr>))
          = data_queue (ps2_gpio_scl_interrupt_handler cfg pins s)
      \<and> callback_log (ps2_gpio_scl_interrupt_handler cfg pins (s\<lparr>cur_write_pos := p, write_buffer := w\<rparr>))
          = callback_log (ps2_gpio_scl_interrupt_handler cfg pins s)
      \<and> line_log (ps2_gpio_scl_interrupt_handler cfg pins (s\<lparr>cur_write_pos := p, write_buffer := w\<rparr>))
          = line_log (ps2_gpio_scl_interrupt_handler cfg pins s))"
  by (simp add: ps2_gpio_scl_interrupt_handler_def handler_write_keeps_read_state
        handler_read_ignores_write_state)

theorem dispatch_by_mode_witness:
  "cur_read_pos (ps2_gpio_scl_interrupt_handler gpio_ok (sda_level 1)
      (ps2_gpio_data_init\<lparr>mode := PS2_GPIO_MODE_WRITE, cur_write_pos := 1, cur_read_pos := 3\<rparr>))
     = 3
   \<and> cur_read_pos (ps2_gpio_scl_interrupt_handler gpio_ok (sda_level 0) ps2_gpio_data_init) = 1
   \<and> cur_read_pos (ps2_gpio_scl_interrupt_handler gpio_ok (sda_level 0)
        (ps2_gpio_data_init\<lparr>cur_write_pos := 5, write_buffer := 0x402\<rparr>)) = 1"
proof -
  let ?w = "ps2_gpio_data_init\<lparr>mode := PS2_GPIO_MODE_WRITE, cur_write_pos := 1, cur_read_pos := 3\<rparr>"
  have mw: "mode ?w = PS2_GPIO_MODE_WRITE"
    by simp
  have mr: "mode ps2_gpio_data_init = PS2_GPIO_MODE_READ"
    by (simp add: init_fields)
  from dispatch_by_mode [where s = ?w and cfg = gpio_ok and pins = "sda_level 1"] mw
  have 1: "cur_read_pos (ps2_gpio_scl_interrupt_handler gpio_ok (sda_level 1) ?w) = cur_read_pos ?w"
    by blast
  from dispatch_by_mode [where s = ps2_gpio_data_init and cfg = gpio_ok and pins = "sda_level 0"
      and p = 5 and w = "0x402"] mr
  have 2: "ps2_gpio_scl_interrupt_handler gpio_ok (sda_level 0) ps2_gpio_data_init
             = ps2_gpio_scl_interrupt_handler_read gpio_ok (sda_level 0) ps2_gpio_data_init
         \<and> cur_read_pos (ps2_gpio_scl_interrupt_handler gpio_ok (sda_level 0)
              (ps2_gpio_data_init\<lparr>cur_write_pos := 5, write_buffer := 0x402\<rparr>))
             = cur_read_pos (ps2_gpio_scl_interrupt_handler gpio_ok (sda_level 0) ps2_gpio_data_init)"
    by blast
  have 3: "ps2_gpio_scl_interrupt_handler_read gpio_ok (sda_level 0) ps2_gpio_data_init
             = ps2_gpio_data_init\<lparr>cur_read_pos := 1\<rparr>"
    by (simp add: read_edge_start_ok init_fields sda_level_def)
  show ?thesis
    using 1 2 3 by simp
qed

section \<open>Delivery\<close>

text \<open>
  Enabling and disabling the callback: the flag is set and the queue is empty afterwards,
  in the source's order of the two statements as in the other.
\<close>

lemma callback_switch_end_states:
  "ps2_gpio_enable_callback s = (0, (ps2_gpio_empty_data_queue s)\<lparr>callback_enabled := True\<rparr>)"
  "ps2_gpio_disable_callback s = (0, (ps2_gpio_empty_data_queue s)\<lparr>callback_enabled := False\<rparr>)"
  "data_queue (snd (ps2_gpio_enable_callback s)) = []"
  "data_queue (snd (ps2_gpio_disable_callback s)) = []"
  by (simp_all add: ps2_gpio_enable_callback_def ps2_gpio_disable_callback_def
        empty_data_queue_eq Let_def)

text \<open>
  C10. A received byte is to go to the callback when one is registered and enabled and to
  be enqueued otherwise. Evaluated for the byte 0x45 with a callback registered: when the
  callback is enabled it is called with 0x45 and the queue stays empty; when it is
  disabled the callback is not called and the queue gets one item, but the item is not the
  byte. It is the address of the parameter \<open>byte\<close>, an object that no longer exists once
  the delivery routine has returned, so the value read through it, also by
  \<open>ps2_gpio_read\<close>, is indeterminate.
\<close>

theorem queued_item_is_dead_parameter:
  "callback_log (ps2_gpio_process_received_byte 0x45
      (ps2_gpio_data_init\<lparr>callback_isr := Some 7, callback_enabled := True\<rparr>)) = [(7, 0x45)]
   \<and> data_queue (ps2_gpio_process_received_byte 0x45
      (ps2_gpio_data_init\<lparr>callback_isr := Some 7, callback_enabled := True\<rparr>)) = []
   \<and> callback_log (ps2_gpio_process_received_byte 0x45
      (ps2_gpio_data_init\<lparr>callback_isr := Some 7\<rparr>)) = []
   \<and> data_queue (ps2_gpio_process_received_byte 0x45
      (ps2_gpio_data_init\<lparr>callback_isr := Some 7\<rparr>)) = [0]
   \<and> deref (ps2_gpio_process_received_byte 0x45
      (ps2_gpio_data_init\<lparr>callback_isr := Some 7\<rparr>)) 0 = Indeterminate
   \<and> fst (snd (ps2_gpio_read gpio_ok [] (ps2_gpio_process_received_byte 0x45
      (ps2_gpio_data_init\<lparr>callback_isr := Some 7\<rparr>)))) = Some Indeterminate"
proof -
  have off: "ps2_gpio_process_received_byte 0x45 (ps2_gpio_data_init\<lparr>callback_isr := Some 7\<rparr>)
               = ps2_gpio_data_init\<lparr>callback_isr := Some 7, next_obj := 1, data_queue := [0]\<rparr>"
    by (simp add: process_received_byte_eq ps2_gpio_data_init_def)
  have q: "data_queue (ps2_gpio_data_init\<lparr>callback_isr := Some 7, next_obj := 1, data_queue := [0]\<rparr>)
             = 0 # []"
    by simp
  show ?thesis
    unfolding off read_of_queued_pointer [OF q]
    by (simp add: process_received_byte_eq init_fields deref_def)
qed

section \<open>Outcomes of the blocking write\<close>

lemma async_status_not_inactive:
  "cur_write_status s \<noteq> PS2_GPIO_WRITE_STATUS_INACTIVE \<Longrightarrow>
   cur_write_status (snd (ps2_gpio_write_byte_async cfg byte s)) \<noteq> PS2_GPIO_WRITE_STATUS_INACTIVE"
  by (simp add: write_byte_async_eq Let_def)

lemma async_ok_status_active:
  "ps2_gpio_write_byte_async cfg byte s = (0, s1) \<Longrightarrow>
   cur_write_status s1 = PS2_GPIO_WRITE_STATUS_ACTIVE"
  by (auto simp add: write_byte_async_eq Let_def split: if_splits)

lemma handler_read_status_not_inactive:
  assumes "cur_write_status s \<noteq> PS2_GPIO_WRITE_STATUS_INACTIVE"
  shows "cur_write_status (ps2_gpio_scl_interrupt_handler_read cfg pins s)
           \<noteq> PS2_GPIO_WRITE_STATUS_INACTIVE"
proof -
  have abort: "cur_write_status (ps2_gpio_abort_read cfg s) \<noteq> PS2_GPIO_WRITE_STATUS_INACTIVE"
    using async_status_not_inactive [OF assms, of cfg "0xfe"]
    by (simp add: ps2_gpio_abort_read_def ps2_gpio_send_cmd_resend_def)
  have deliver: "cur_write_status (ps2_gpio_process_received_byte b s) = cur_write_status s" for b
    by (simp add: process_received_byte_eq)
  show ?thesis
    using assms abort
    by (simp add: ps2_gpio_scl_interrupt_handler_read_def Let_def deliver)
qed

lemma handler_write_status_not_inactive:
  assumes "cur_write_status s \<noteq> PS2_GPIO_WRITE_STATUS_INACTIVE"
  shows "cur_write_status (ps2_gpio_scl_interrupt_handler_write cfg pins s)
           \<noteq> PS2_GPIO_WRITE_STATUS_INACTIVE"
  using assms by (simp add: write_defs gpio_defs Let_def k_sem_give_def)

lemma handler_status_not_inactive:
  "cur_write_status s \<noteq> PS2_GPIO_WRITE_STATUS_INACTIVE \<Longrightarrow>
   cur_write_status (ps2_gpio_scl_interrupt_handler cfg pins s) \<noteq> PS2_GPIO_WRITE_STATUS_INACTIVE"
  by (simp add: ps2_gpio_scl_interrupt_handler_def handler_read_status_not_inactive
        handler_write_status_not_inactive)

lemma wait_status_not_inactive:
  "cur_write_status s \<noteq> PS2_GPIO_WRITE_STATUS_INACTIVE \<Longrightarrow>
   cur_write_status (snd (k_sem_take_timeout cfg edges s)) \<noteq> PS2_GPIO_WRITE_STATUS_INACTIVE"
proof (induction edges arbitrary: s)
  case Nil
  then show ?case by simp
next
  case (Cons e edges)
  show ?case
  proof (cases "0 < write_lock s")
    case True
    with Cons.prems show ?thesis by simp
  next
    case False
    then show ?thesis
      using Cons.IH [OF handler_status_not_inactive [OF Cons.prems, of cfg e]] by simp
  qed
qed

lemma wait_result:
  "fst (k_sem_take_timeout cfg edges s) = 0 \<or> fst (k_sem_take_timeout cfg edges s) = - EAGAIN"
  by (induction edges arbitrary: s) simp_all

text \<open>
  C8. Blocking write, once the asynchronous write has been started: if the wait on the
  gate times out, the error \<open>-EAGAIN\<close> is returned and the state, with it the write
  status, is left as the wait found it; if the wait succeeds and the status is Success, 0
  is returned and the status is reset to Inactive; if the wait succeeds with any other
  status, the negated status code is returned, which is not 0, and the status is reset to
  Inactive.
\<close>

theorem write_byte_blocking_outcomes:
  assumes "ps2_gpio_write_byte_async cfg byte s = (0, s1)"
      and "k_sem_take_timeout cfg edges s1 = (err, s2)"
  shows "(err \<noteq> 0 \<longrightarrow>
            err = - EAGAIN \<and> ps2_gpio_write_byte_blocking cfg edges byte s = (err, s2))
    \<and> (err = 0 \<and> cur_write_status s2 = PS2_GPIO_WRITE_STATUS_SUCCESS \<longrightarrow>
            ps2_gpio_write_byte_blocking cfg edges byte s
              = (0, s2\<lparr>cur_write_status := PS2_GPIO_WRITE_STATUS_INACTIVE\<rparr>))
    \<and> (err = 0 \<and> cur_write_status s2 \<noteq> PS2_GPIO_WRITE_STATUS_SUCCESS \<longrightarrow>
            ps2_gpio_write_byte_blocking cfg edges byte s
              = (- write_status_val (cur_write_status s2),
                 s2\<lparr>cur_write_status := PS2_GPIO_WRITE_STATUS_INACTIVE\<rparr>)
          \<and> - write_status_val (cur_write_status s2) \<noteq> 0)"
proof -
  have "cur_write_status s1 \<noteq> PS2_GPIO_WRITE_STATUS_INACTIVE"
    using async_ok_status_active [OF assms(1)] by simp
  from wait_status_not_inactive [OF this, of cfg edges]
  have woken: "cur_write_status s2 \<noteq> PS2_GPIO_WRITE_STATUS_INACTIVE"
    using assms(2) by simp
  have code: "write_status_val (cur_write_status s2) \<noteq> 0"
    using woken by (cases "cur_write_status s2") simp_all
  have err: "err = 0 \<or> err = - EAGAIN"
    using wait_result [of cfg edges s1] assms(2) by simp
  show ?thesis
    using assms code err by (auto simp add: ps2_gpio_write_byte_blocking_def)
qed

lemma wait_run_edges:
  "write_lock s = 0 \<Longrightarrow>
   k_sem_take_timeout cfg (e # edges) s
     = k_sem_take_timeout cfg edges (ps2_gpio_scl_interrupt_handler cfg e s)"
  by simp

theorem write_byte_blocking_outcomes_witness:
  "fst (ps2_gpio_write_byte_blocking gpio_ok [] 0x01 ps2_gpio_data_init) = - EAGAIN
   \<and> cur_write_status (snd (ps2_gpio_write_byte_blocking gpio_ok [] 0x01 ps2_gpio_data_init))
       = PS2_GPIO_WRITE_STATUS_ACTIVE
   \<and> fst (ps2_gpio_write_byte_blocking gpio_ok (replicate 11 (sda_level 0)) 0x01
            ps2_gpio_data_init) = 0
   \<and> cur_write_status (snd (ps2_gpio_write_byte_blocking gpio_ok (replicate 11 (sda_level 0)) 0x01
            ps2_gpio_data_init)) = PS2_GPIO_WRITE_STATUS_INACTIVE
   \<and> fst (ps2_gpio_write_byte_blocking gpio_ok (replicate 10 (sda_level 0) @ [sda_level 1]) 0x01
            ps2_gpio_data_init) = - 3
   \<and> cur_write_status (snd (ps2_gpio_write_byte_blocking gpio_ok
            (replicate 10 (sda_level 0) @ [sda_level 1]) 0x01
            ps2_gpio_data_init)) = PS2_GPIO_WRITE_STATUS_INACTIVE"
proof -
  let ?s1 = "snd (ps2_gpio_write_byte_async gpio_ok 0x01 ps2_gpio_data_init)"
  let ?ack = "replicate 11 (sda_level 0)"
  let ?nack = "replicate 10 (sda_level 0) @ [sda_level 1]"
  have a: "ps2_gpio_write_byte_async gpio_ok 0x01 ps2_gpio_data_init = (0, ?s1)"
    by (simp add: async_01_state)
  have w: "k_sem_take_timeout gpio_ok es ?s1
             = (fst (k_sem_take_timeout gpio_ok es ?s1), snd (k_sem_take_timeout gpio_ok es ?s1))"
    for es by simp
  have t0: "fst (k_sem_take_timeout gpio_ok [] ?s1) = - EAGAIN
            \<and> cur_write_status (snd (k_sem_take_timeout gpio_ok [] ?s1)) = PS2_GPIO_WRITE_STATUS_ACTIVE"
    by (simp add: async_01_state init_fields)
  have t1: "fst (k_sem_take_timeout gpio_ok ?ack ?s1) = 0
            \<and> cur_write_status (snd (k_sem_take_timeout gpio_ok ?ack ?s1)) = PS2_GPIO_WRITE_STATUS_SUCCESS"
    by (simp add: async_01_state numeral_eq_Suc wait_run_edges init_fields
          write_edge_send_bit write_edge_stop write_edge_ack sda_level_def
          del: k_sem_take_timeout.simps(2))
  have t2: "fst (k_sem_take_timeout gpio_ok ?nack ?s1) = 0
            \<and> cur_write_status (snd (k_sem_take_timeout gpio_ok ?nack ?s1)) = PS2_GPIO_WRITE_STATUS_FAILURE"
    by (simp add: async_01_state numeral_eq_Suc wait_run_edges init_fields
          write_edge_send_bit write_edge_stop write_edge_ack sda_level_def
          del: k_sem_take_timeout.simps(2))
  show ?thesis
    using write_byte_blocking_outcomes [OF a w [of "[]"]]
          write_byte_blocking_outcomes [OF a w [of ?ack]]
          write_byte_blocking_outcomes [OF a w [of ?nack]]
          t0 t1 t2
    by simp
qed


end
